theory Spec2Isabelle
  imports Complex_Main "HOL-Library.Word"
begin

section \<open>JavaScript strings\<close>

text \<open>
  A JavaScript string is a sequence of UTF-16 code units. \<open>trim\<close>, \<open>startsWith\<close>,
  \<open>replace\<close> and a regular expression without the \<open>u\<close> flag all work on code units, so
  a string is modelled as a list of 16-bit words. The literals of the source are outside
  ASCII and are written by their code units.
\<close>

type_synonym jstring = "16 word list"

definition ascii :: "string \<Rightarrow> jstring" where
  "ascii s = map (\<lambda>c. of_nat (of_char c)) s"

text \<open>ECMAScript \<open>LineTerminator\<close>: LF, CR, LS, PS.\<close>

definition is_line_terminator :: "16 word \<Rightarrow> bool" where
  "is_line_terminator c \<longleftrightarrow> c = 0x000A \<or> c = 0x000D \<or> c = 0x2028 \<or> c = 0x2029"

text \<open>
  ECMAScript \<open>WhiteSpace\<close> (TAB, VT, FF, ZWNBSP and the category Zs) together with
  \<open>LineTerminator\<close>: what \<open>String.prototype.trim\<close> strips and what \<open>\s\<close> matches.
\<close>

definition is_space :: "16 word \<Rightarrow> bool" where
  "is_space c \<longleftrightarrow>
     c = 0x0009 \<or> c = 0x000B \<or> c = 0x000C \<or> c = 0x0020 \<or> c = 0x00A0 \<or> c = 0xFEFF \<or>
     c = 0x1680 \<or> (0x2000 \<le> c \<and> c \<le> 0x200A) \<or> c = 0x202F \<or> c = 0x205F \<or>
     c = 0x3000 \<or> is_line_terminator c"

text \<open>\<open>s.trim()\<close>\<close>

definition js_trim :: "jstring \<Rightarrow> jstring" where
  "js_trim s = rev (dropWhile is_space (rev (dropWhile is_space s)))"

text \<open>\<open>s.startsWith(p)\<close>\<close>

definition js_startsWith :: "jstring \<Rightarrow> jstring \<Rightarrow> bool" where
  "js_startsWith s p \<longleftrightarrow> take (length p) s = p"

text \<open>
  \<open>s.replace(p, '')\<close> with a string pattern: the first occurrence of \<open>p\<close>, searched from
  the left, is deleted; a string without an occurrence is returned as it is.
\<close>

fun js_replace_first :: "jstring \<Rightarrow> jstring \<Rightarrow> jstring" where
  "js_replace_first p [] = []"
| "js_replace_first p (c # cs) =
     (if take (length p) (c # cs) = p then drop (length p) (c # cs)
      else c # js_replace_first p cs)"

text \<open>
  \<open>s.replace(/p/g, '')\<close> for a pattern \<open>p\<close> of literal characters: one scan from the
  left; at a match the matched characters are dropped and the scan goes on behind them,
  otherwise one character is kept. The pattern of the source has two characters; an empty
  pattern is not used and leaves the string as it is here.
\<close>

function js_replace_all :: "jstring \<Rightarrow> jstring \<Rightarrow> jstring" where
  "js_replace_all p [] = []"
| "js_replace_all p (c # cs) =
     (if p \<noteq> [] \<and> take (length p) (c # cs) = p
      then js_replace_all p (drop (length p) (c # cs))
      else c # js_replace_all p cs)"
  by pat_completeness auto
termination
  by (relation "measure (\<lambda>(p, s). length s)") (auto simp: Suc_le_eq)

text \<open>\<open>n.toString()\<close> for an integer: decimal digits, a minus sign when negative.\<close>

fun digits :: "nat \<Rightarrow> jstring" where
  "digits n = (if n < 10 then [of_nat (48 + n)] else digits (n div 10) @ [of_nat (48 + n mod 10)])"

declare digits.simps [simp del]

definition js_toString :: "int \<Rightarrow> jstring" where
  "js_toString i = (if i < 0 then 0x2D # digits (nat (- i)) else digits (nat i))"

section \<open>Data model (types.ts)\<close>

datatype MessageType = TEXT | VIDEO | SYSTEM

text \<open>
  Field names carry the prefix \<open>u_\<close> (User) or \<open>m_\<close> (Message): \<open>id\<close> is a HOL constant
  and \<open>avatar\<close> is a field of both interfaces. An optional field is an \<open>option\<close>.
  Timestamps are what \<open>Date.now()\<close> returns, whole milliseconds.
\<close>

record User =
  u_id :: jstring
  u_nickname :: jstring
  u_avatar :: jstring
  u_isOnline :: bool
  u_lastSeen :: "int option"

text \<open>
  A value produced by \<open>JSON.parse\<close>. A number is the parsed double as its exact value
  (both zeros are 0). The reply of the assistant is typed \<open>any\<close> in the source and is stored
  in a message unconverted, so the content of a message is a value of this type; a
  string \<open>s\<close> is \<open>JStr s\<close>.
\<close>

datatype json =
    JNull
  | JBool bool
  | JNum rat
  | JStr jstring
  | JArr "json list"
  | JObj "(jstring \<times> json) list"

record Message =
  m_id :: jstring
  m_senderId :: jstring
  m_senderName :: jstring
  m_avatar :: jstring
  m_content :: json
  m_type :: MessageType
  m_timestamp :: int
  m_videoUrl :: "jstring option"
  m_isAi :: "bool option"

text \<open>The envelopes of the channel, tagged by their \<open>type\<close> field.\<close>

datatype Envelope =
    REQUEST_USERS jstring
  | USER_JOIN User
  | HEARTBEAT User
  | NEW_MESSAGE Message

text \<open>\<open>ServerConfig\<close>, with the prefix \<open>cfg_\<close> on its fields.\<close>

record ServerConfig =
  cfg_id :: jstring
  cfg_name :: jstring
  cfg_address :: jstring

section \<open>Constants (constants.ts and the literals of ChatRoom)\<close>

definition BROADCAST_CHANNEL_NAME :: jstring where
  "BROADCAST_CHANNEL_NAME = ascii ''daip_chat_channel''"

definition VIDEO_PARSER_URL :: jstring where
  "VIDEO_PARSER_URL = ascii ''https://jx.xmflv.com/?url=''"

definition MOVIE_BOT_NAME :: jstring where
  "MOVIE_BOT_NAME = [0x7535, 0x5F71, 0x52A9, 0x624B]"

definition MOVIE_BOT_AVATAR :: jstring where
  "MOVIE_BOT_AVATAR = ascii ''https://picsum.photos/id/452/200/200''"

definition AI_BOT_NAME :: jstring where
  "AI_BOT_NAME = [0x5DDD, 0x5C0F, 0x519C]"

definition AI_BOT_AVATAR :: jstring where
  "AI_BOT_AVATAR = ascii ''https://picsum.photos/id/64/200/200''"

text \<open>The command prefix of the movie bot, \<open>@\<close> followed by U+7535 U+5F71.\<close>

definition movie_prefix :: jstring where
  "movie_prefix = [0x0040, 0x7535, 0x5F71]"

text \<open>The filler word removed from a movie command, U+64AD U+653E ("play").\<close>

definition play_word :: jstring where
  "play_word = [0x64AD, 0x653E]"

text \<open>The caption prefix of the movie bot's message, ending in a colon and a space.\<close>

definition movie_caption :: jstring where
  "movie_caption = [0x4E3A, 0x60A8, 0x64AD, 0x653E, 0x003A, 0x0020]"

text \<open>The command prefix of the assistant, \<open>@\<close> followed by U+5DDD U+5C0F U+519C.\<close>

definition ai_prefix :: jstring where
  "ai_prefix = [0x0040, 0x5DDD, 0x5C0F, 0x519C]"

text \<open>The query used when the assistant command has no text, U+4F60 U+597D ("hello").\<close>

definition default_query :: jstring where
  "default_query = [0x4F60, 0x597D]"

text \<open>The three fallback replies of \<open>sendMessageToAi\<close>.\<close>

definition api_error_reply :: jstring where
  "api_error_reply =
     [0x5DDD, 0x5C0F, 0x519C, 0x73B0, 0x5728, 0x6709, 0x70B9, 0x6655, 0xFF0C, 0x8BF7,
      0x7A0D, 0x540E, 0x518D, 0x8BD5] @ ascii ''... (API Error)''"

definition no_content_reply :: jstring where
  "no_content_reply =
     [0x5DDD, 0x5C0F, 0x519C, 0x4E0D, 0x77E5, 0x9053, 0x8BE5, 0x8BF4, 0x4EC0, 0x4E48]
     @ ascii ''...''"

definition network_error_reply :: jstring where
  "network_error_reply =
     [0x7F51, 0x7EDC, 0x8FDE, 0x63A5, 0x4F3C, 0x4E4E, 0x65AD, 0x5F00, 0x4E86] @ ascii ''...''"

section \<open>Presence (ChatRoom, the network and heartbeat effect)\<close>

text \<open>\<open>xs.findIndex(P)\<close>; \<open>None\<close> is the source's \<open>-1\<close>.\<close>

fun findIndex :: "('a \<Rightarrow> bool) \<Rightarrow> 'a list \<Rightarrow> nat option" where
  "findIndex P [] = None"
| "findIndex P (x # xs) = (if P x then Some 0 else map_option Suc (findIndex P xs))"

text \<open>
  The updater given to \<open>setOnlineUsers\<close> when a \<open>USER_JOIN\<close> or \<open>HEARTBEAT\<close> envelope
  arrives; \<open>now\<close> is the \<open>Date.now()\<close> of the receipt.
\<close>

definition presence_update :: "int \<Rightarrow> User \<Rightarrow> User list \<Rightarrow> User list" where
  "presence_update now user prev =
     (case findIndex (\<lambda>u. u_id u = u_id user) prev of
        Some existingIndex \<Rightarrow> prev[existingIndex := user\<lparr>u_lastSeen := Some now\<rparr>]
      | None \<Rightarrow> prev @ [user\<lparr>u_lastSeen := Some now\<rparr>])"

text \<open>\<open>u.lastSeen || 0\<close>: an absent \<open>lastSeen\<close> counts as 0 (and 0 stays 0).\<close>

definition lastSeen_or_0 :: "User \<Rightarrow> int" where
  "lastSeen_or_0 u = (case u_lastSeen u of None \<Rightarrow> 0 | Some t \<Rightarrow> t)"

text \<open>The updater of the cleanup interval; \<open>now\<close> is read once per tick.\<close>

definition cleanup :: "User \<Rightarrow> int \<Rightarrow> User list \<Rightarrow> User list" where
  "cleanup currentUser now prev =
     filter (\<lambda>u. if u_id u = u_id currentUser then True
                 else now - lastSeen_or_0 u < 3000) prev"

text \<open>
  The presence lists of a room that is rendered for one \<open>currentUser\<close> throughout:
  \<open>useState([currentUser])\<close> at the start, then any sequence of received join or
  heartbeat envelopes and cleanup ticks. No other code writes \<open>onlineUsers\<close>.
\<close>

inductive presence_reachable :: "User \<Rightarrow> User list \<Rightarrow> bool" for currentUser where
  initial: "presence_reachable currentUser [currentUser]"
| received: "presence_reachable currentUser prev \<Longrightarrow>
     presence_reachable currentUser (presence_update now user prev)"
| tick: "presence_reachable currentUser prev \<Longrightarrow>
     presence_reachable currentUser (cleanup currentUser now prev)"

text \<open>
  What holds of every such presence list: no two entries share an id, an entry with the
  user's id is there, and every other entry carries a \<open>lastSeen\<close>.
\<close>

definition presence_inv :: "User \<Rightarrow> User list \<Rightarrow> bool" where
  "presence_inv c us \<longleftrightarrow> distinct (map u_id us) \<and> u_id c \<in> u_id ` set us \<and>
     (\<forall>u\<in>set us. u_id u \<noteq> u_id c \<longrightarrow> u_lastSeen u \<noteq> None)"

section \<open>The assistant call (services/aiService.ts)\<close>

text \<open>What JavaScript throws or rejects with in the code modelled here.\<close>

datatype js_error =
    NetworkError
  | SyntaxError
  | TypeError
  | InvalidStateError

text \<open>
  What the network gives back. \<open>fetch\<close> either rejects or resolves with a response; of a
  response the code reads \<open>ok\<close> and \<open>await response.json()\<close>, which rejects (\<open>None\<close>) when
  the body is not JSON.
\<close>

record response =
  ok :: bool
  json_body :: "json option"

datatype fetch_result = FetchRejected | FetchResolved response

text \<open>
  Property reads on a JavaScript value; \<open>None\<close> is \<open>undefined\<close>. \<open>js_get v k\<close> is \<open>v.k\<close>
  for a \<open>v\<close> other than \<open>null\<close>, for the names the source reads (\<open>choices\<close>,
  \<open>message\<close>, \<open>content\<close>), which only an object parsed from JSON can have; of a repeated
  key \<open>JSON.parse\<close> keeps the last value.
\<close>

definition js_get :: "json \<Rightarrow> jstring \<Rightarrow> json option" where
  "js_get v k = (case v of JObj kvs \<Rightarrow> map_of (rev kvs) k | _ \<Rightarrow> None)"

text \<open>\<open>v?.k\<close>: \<open>undefined\<close> when \<open>v\<close> is \<open>undefined\<close> or \<open>null\<close>.\<close>

definition opt_get :: "json option \<Rightarrow> jstring \<Rightarrow> json option" where
  "opt_get v k = (case v of None \<Rightarrow> None | Some JNull \<Rightarrow> None | Some x \<Rightarrow> js_get x k)"

text \<open>
  \<open>v?.[0]\<close>: the first element of an array, the first character of a string, the property
  \<open>"0"\<close> of an object.
\<close>

definition opt_index0 :: "json option \<Rightarrow> json option" where
  "opt_index0 v =
     (case v of
        None \<Rightarrow> None
      | Some (JArr xs) \<Rightarrow> (case xs of [] \<Rightarrow> None | x # _ \<Rightarrow> Some x)
      | Some (JStr s) \<Rightarrow> (case s of [] \<Rightarrow> None | c # _ \<Rightarrow> Some (JStr [c]))
      | Some (JObj kvs) \<Rightarrow> map_of (rev kvs) (ascii ''0'')
      | Some _ \<Rightarrow> None)"

text \<open>\<open>data.choices?.[0]?.message?.content\<close> for a \<open>data\<close> other than \<open>null\<close>.\<close>

definition content_path :: "json \<Rightarrow> json option" where
  "content_path data =
     opt_get (opt_get (opt_index0 (js_get data (ascii ''choices''))) (ascii ''message''))
       (ascii ''content'')"

text \<open>JavaScript truthiness; \<open>undefined\<close> (\<open>None\<close>) is falsy.\<close>

fun truthy :: "json \<Rightarrow> bool" where
  "truthy JNull = False"
| "truthy (JBool b) = b"
| "truthy (JNum r) = (r \<noteq> 0)"
| "truthy (JStr s) = (s \<noteq> [])"
| "truthy (JArr xs) = True"
| "truthy (JObj kvs) = True"

text \<open>\<open>a || b\<close>\<close>

definition js_or :: "json option \<Rightarrow> json \<Rightarrow> json" where
  "js_or a b = (case a of None \<Rightarrow> b | Some v \<Rightarrow> if truthy v then v else b)"

text \<open>
  The \<open>try\<close> block of \<open>sendMessageToAi\<close>. \<open>Inl\<close> is an exception leaving the block:
  \<open>fetch\<close> rejecting, \<open>response.json()\<close> rejecting on either branch, or reading
  \<open>choices\<close> of \<open>null\<close>. The network is a function of the user message, the only part of
  the request that varies.
\<close>

definition sendMessageToAi_try :: "(jstring \<Rightarrow> fetch_result) \<Rightarrow> jstring \<Rightarrow> js_error + json" where
  "sendMessageToAi_try fetch userMessage =
     (case fetch userMessage of
        FetchRejected \<Rightarrow> Inl NetworkError
      | FetchResolved response \<Rightarrow>
          if \<not> ok response then
            (case json_body response of
               None \<Rightarrow> Inl SyntaxError
             | Some errorData \<Rightarrow> Inr (JStr api_error_reply))
          else
            (case json_body response of
               None \<Rightarrow> Inl SyntaxError
             | Some JNull \<Rightarrow> Inl TypeError
             | Some data \<Rightarrow> Inr (js_or (content_path data) (JStr no_content_reply))))"

text \<open>\<open>sendMessageToAi\<close>: the \<open>catch\<close> turns every exception of the block into a reply.\<close>

definition sendMessageToAi :: "(jstring \<Rightarrow> fetch_result) \<Rightarrow> jstring \<Rightarrow> js_error + json" where
  "sendMessageToAi fetch userMessage =
     (case sendMessageToAi_try fetch userMessage of
        Inl error \<Rightarrow> Inr (JStr network_error_reply)
      | Inr reply \<Rightarrow> Inr reply)"

section \<open>The chat room (ChatRoom)\<close>

text \<open>
  \<open>channelRef\<close>: \<open>null\<close> until the effect has run, then a \<open>BroadcastChannel\<close>, of which
  the model keeps the envelopes posted so far, and a closed channel after the cleanup of
  the effect (the reference is not reset).
\<close>

datatype channel = Unattached | Attached "Envelope list" | Closed

text \<open>
  \<open>channelRef.current?.postMessage(e)\<close>: nothing on \<open>null\<close>; a closed channel throws
  \<open>InvalidStateError\<close>.
\<close>

definition postMessage :: "Envelope \<Rightarrow> channel \<Rightarrow> js_error + channel" where
  "postMessage e ch =
     (case ch of
        Unattached \<Rightarrow> Inr Unattached
      | Attached posted \<Rightarrow> Inr (Attached (posted @ [e]))
      | Closed \<Rightarrow> Inl InvalidStateError)"

text \<open>The state of the component that the modelled code reads or writes.\<close>

record ChatRoom =
  messages :: "Message list"
  inputText :: jstring
  onlineUsers :: "User list"
  showEmojiPicker :: bool
  isAiThinking :: bool
  channelRef :: channel

text \<open>\<open>useState\<close> initial values, before the effects run.\<close>

definition initial_ChatRoom :: "User \<Rightarrow> ChatRoom" where
  "initial_ChatRoom currentUser =
     \<lparr>messages = [], inputText = [], onlineUsers = [currentUser],
      showEmojiPicker = False, isAiThinking = False, channelRef = Unattached\<rparr>"

text \<open>\<open>channelRef.current.onmessage\<close>; \<open>now\<close> is the \<open>Date.now()\<close> of the receipt.\<close>

definition onmessage :: "int \<Rightarrow> Envelope \<Rightarrow> ChatRoom \<Rightarrow> ChatRoom" where
  "onmessage now data st =
     (case data of
        NEW_MESSAGE message \<Rightarrow> st\<lparr>messages := messages st @ [message]\<rparr>
      | USER_JOIN user \<Rightarrow> st\<lparr>onlineUsers := presence_update now user (onlineUsers st)\<rparr>
      | HEARTBEAT user \<Rightarrow> st\<lparr>onlineUsers := presence_update now user (onlineUsers st)\<rparr>
      | REQUEST_USERS requesterId \<Rightarrow> st)"

text \<open>The callback of \<open>cleanupInterval\<close>.\<close>

definition cleanup_tick :: "User \<Rightarrow> int \<Rightarrow> ChatRoom \<Rightarrow> ChatRoom" where
  "cleanup_tick currentUser now st =
     st\<lparr>onlineUsers := cleanup currentUser now (onlineUsers st)\<rparr>"

subsection \<open>The assistant pattern\<close>

text \<open>
  The regular expression \<open>/^@...\s*(.*)$/\<close> as the backtracking matcher runs it.
  \<open>dot_star_end\<close> is \<open>(.*)$\<close> at a position: \<open>.\<close> takes any character but a line
  terminator, greedily, and \<open>$\<close> (no \<open>m\<close> flag) holds at the end of the input only; the
  result is the text captured.
\<close>

fun dot_star_end :: "jstring \<Rightarrow> jstring option" where
  "dot_star_end [] = Some []"
| "dot_star_end (c # cs) =
     (if is_line_terminator c then None else map_option ((#) c) (dot_star_end cs))"

text \<open>
  \<open>\s*(.*)$\<close> at a position: the star first takes one more space character and, when the
  rest of the pattern then fails, gives it back.
\<close>

fun space_star_rest :: "jstring \<Rightarrow> jstring option" where
  "space_star_rest [] = dot_star_end []"
| "space_star_rest (c # cs) =
     (if is_space c then
        (case space_star_rest cs of Some capture \<Rightarrow> Some capture | None \<Rightarrow> dot_star_end (c # cs))
      else dot_star_end (c # cs))"

text \<open>\<open>rawContent.match(aiRegex)\<close>: \<open>None\<close> is \<open>null\<close>, \<open>Some c\<close> a match with \<open>aiMatch[1] = c\<close>.\<close>

definition aiRegex_match :: "jstring \<Rightarrow> jstring option" where
  "aiRegex_match rawContent =
     (if js_startsWith rawContent ai_prefix
      then space_star_rest (drop (length ai_prefix) rawContent)
      else None)"

subsection \<open>handleSendMessage\<close>

text \<open>
  How a run of the handler's code ends: it returns, it throws, it returns having set the
  movie bot's timer for a target, or it is suspended in \<open>await sendMessageToAi(query)\<close>.
\<close>

datatype outcome =
    Returned
  | Threw js_error
  | TimerSet jstring
  | AwaitingAi jstring

text \<open>
  The three message literals of the handler: the user's message, the movie bot's and the
  assistant's. \<open>now_id\<close> and \<open>now_ts\<close> are the two readings of \<open>Date.now()\<close> in each.
\<close>

definition newMessage :: "User \<Rightarrow> int \<Rightarrow> int \<Rightarrow> jstring \<Rightarrow> Message" where
  "newMessage currentUser now_id now_ts rawContent =
     \<lparr>m_id = js_toString now_id, m_senderId = u_id currentUser,
      m_senderName = u_nickname currentUser, m_avatar = u_avatar currentUser,
      m_content = JStr rawContent, m_type = TEXT, m_timestamp = now_ts,
      m_videoUrl = None, m_isAi = None\<rparr>"

definition movieBotMsg :: "jstring \<Rightarrow> int \<Rightarrow> int \<Rightarrow> Message" where
  "movieBotMsg rawUrl now_id now_ts =
     \<lparr>m_id = js_toString now_id @ ascii ''-movie'', m_senderId = ascii ''movie-bot'',
      m_senderName = MOVIE_BOT_NAME, m_avatar = MOVIE_BOT_AVATAR,
      m_content = JStr (movie_caption @ rawUrl), m_type = VIDEO, m_timestamp = now_ts,
      m_videoUrl = Some (VIDEO_PARSER_URL @ rawUrl), m_isAi = Some True\<rparr>"

definition aiMessage :: "json \<Rightarrow> int \<Rightarrow> int \<Rightarrow> Message" where
  "aiMessage aiResponseText now_id now_ts =
     \<lparr>m_id = js_toString now_id @ ascii ''-ai'', m_senderId = ascii ''ai-bot'',
      m_senderName = AI_BOT_NAME, m_avatar = AI_BOT_AVATAR,
      m_content = aiResponseText, m_type = TEXT, m_timestamp = now_ts,
      m_videoUrl = None, m_isAi = Some True\<rparr>"

text \<open>
  \<open>handleSendMessage\<close> up to its return or to the \<open>await\<close>. A throw of \<open>postMessage\<close>
  ends the run with the state written so far.
\<close>

definition handleSendMessage :: "User \<Rightarrow> int \<Rightarrow> int \<Rightarrow> ChatRoom \<Rightarrow> ChatRoom \<times> outcome" where
  "handleSendMessage currentUser now_id now_ts st =
     (if js_trim (inputText st) = [] then (st, Returned)
      else
        let rawContent = js_trim (inputText st);
            st1 = st\<lparr>messages := messages st @ [newMessage currentUser now_id now_ts rawContent]\<rparr>
        in case postMessage (NEW_MESSAGE (newMessage currentUser now_id now_ts rawContent))
                  (channelRef st1) of
             Inl error \<Rightarrow> (st1, Threw error)
           | Inr ch \<Rightarrow>
               let st2 = st1\<lparr>channelRef := ch, inputText := [], showEmojiPicker := False\<rparr>
               in if js_startsWith rawContent movie_prefix then
                    let rawUrl = js_trim (js_replace_all play_word
                                   (js_replace_first movie_prefix rawContent))
                    in if rawUrl \<noteq> [] then (st2, TimerSet rawUrl) else (st2, Returned)
                  else
                    (case aiRegex_match rawContent of
                       Some capture \<Rightarrow>
                         (st2\<lparr>isAiThinking := True\<rparr>,
                          AwaitingAi (if capture \<noteq> [] then capture else default_query))
                     | None \<Rightarrow> (st2, Returned)))"

text \<open>The callback given to \<open>setTimeout\<close> by the movie branch, run 600 ms later.\<close>

definition movie_timeout :: "jstring \<Rightarrow> int \<Rightarrow> int \<Rightarrow> ChatRoom \<Rightarrow> ChatRoom \<times> outcome" where
  "movie_timeout rawUrl now_id now_ts st =
     (let st1 = st\<lparr>messages := messages st @ [movieBotMsg rawUrl now_id now_ts]\<rparr>
      in case postMessage (NEW_MESSAGE (movieBotMsg rawUrl now_id now_ts)) (channelRef st1) of
           Inl error \<Rightarrow> (st1, Threw error)
         | Inr ch \<Rightarrow> (st1\<lparr>channelRef := ch\<rparr>, Returned))"

text \<open>
  The \<open>try\<close> block of the assistant branch from the point where the awaited call settles
  with \<open>result\<close>.
\<close>

definition ai_try :: "js_error + json \<Rightarrow> int \<Rightarrow> int \<Rightarrow> ChatRoom \<Rightarrow> ChatRoom \<times> outcome" where
  "ai_try result now_id now_ts st =
     (case result of
        Inl error \<Rightarrow> (st, Threw error)
      | Inr aiResponseText \<Rightarrow>
          let st1 = st\<lparr>messages := messages st @ [aiMessage aiResponseText now_id now_ts]\<rparr>
          in case postMessage (NEW_MESSAGE (aiMessage aiResponseText now_id now_ts))
                    (channelRef st1) of
               Inl error \<Rightarrow> (st1, Threw error)
             | Inr ch \<Rightarrow> (st1\<lparr>channelRef := ch\<rparr>, Returned))"

text \<open>
  The rest of \<open>handleSendMessage\<close> after the \<open>await\<close>: the \<open>try\<close> block, then the
  \<open>finally\<close> block on every way out of it.
\<close>

definition ai_resume :: "js_error + json \<Rightarrow> int \<Rightarrow> int \<Rightarrow> ChatRoom \<Rightarrow> ChatRoom \<times> outcome" where
  "ai_resume result now_id now_ts st =
     (case ai_try result now_id now_ts st of
        (st', out) \<Rightarrow> (st'\<lparr>isAiThinking := False\<rparr>, out))"

subsection \<open>The effects of ChatRoom\<close>

text \<open>\<open>channelName\<close>: the base name, an underscore and the id of the server.\<close>

definition channelName :: "ServerConfig \<Rightarrow> jstring" where
  "channelName serverConfig = BROADCAST_CHANNEL_NAME @ ascii ''_'' @ cfg_id serverConfig"

text \<open>
  The network effect. Its body opens a new \<open>BroadcastChannel\<close> of the room's name and
  posts the join envelope on it; the handler and the two intervals it installs are
  \<open>onmessage\<close>, the heartbeat and \<open>cleanup_tick\<close> with the \<open>currentUser\<close> of this run of the
  effect. Its cleanup clears the intervals and closes the channel, leaving the reference in
  place.
\<close>

definition network_effect :: "User \<Rightarrow> ChatRoom \<Rightarrow> ChatRoom" where
  "network_effect currentUser st = st\<lparr>channelRef := Attached [USER_JOIN currentUser]\<rparr>"

definition network_effect_cleanup :: "ChatRoom \<Rightarrow> ChatRoom" where
  "network_effect_cleanup st =
     st\<lparr>channelRef := (case channelRef st of Unattached \<Rightarrow> Unattached | _ \<Rightarrow> Closed)\<rparr>"

text \<open>
  The welcome effect: \<open>setMessages([welcomeMsg])\<close>. The content reads "welcome", the
  nickname, "joins", and the server name in brackets with a full-width exclamation mark.
\<close>

definition welcomeMsg :: "User \<Rightarrow> ServerConfig \<Rightarrow> int \<Rightarrow> Message" where
  "welcomeMsg currentUser serverConfig now =
     \<lparr>m_id = ascii ''system-welcome'', m_senderId = ascii ''system'',
      m_senderName = [0x7CFB, 0x7EDF], m_avatar = [],
      m_content = JStr ([0x6B22, 0x8FCE, 0x0020] @ u_nickname currentUser
        @ [0x0020, 0x52A0, 0x5165, 0x0020, 0x005B] @ cfg_name serverConfig @ [0x005D, 0xFF01]),
      m_type = SYSTEM, m_timestamp = now, m_videoUrl = None, m_isAi = None\<rparr>"

definition welcome_effect :: "User \<Rightarrow> ServerConfig \<Rightarrow> int \<Rightarrow> ChatRoom \<Rightarrow> ChatRoom" where
  "welcome_effect currentUser serverConfig now st =
     st\<lparr>messages := [welcomeMsg currentUser serverConfig now]\<rparr>"

text \<open>The room after its first render and the first run of both effects.\<close>

definition mount_ChatRoom :: "User \<Rightarrow> ServerConfig \<Rightarrow> int \<Rightarrow> ChatRoom" where
  "mount_ChatRoom currentUser serverConfig now =
     welcome_effect currentUser serverConfig now
       (network_effect currentUser (initial_ChatRoom currentUser))"

text \<open>
  The heartbeat interval: \<open>postMessage\<close> of a heartbeat envelope for the local user with
  \<open>lastSeen\<close> set to the time of the tick.
\<close>

definition heartbeat_tick :: "User \<Rightarrow> int \<Rightarrow> ChatRoom \<Rightarrow> ChatRoom \<times> outcome" where
  "heartbeat_tick currentUser now st =
     (case postMessage (HEARTBEAT (currentUser\<lparr>u_lastSeen := Some now\<rparr>)) (channelRef st) of
        Inl error \<Rightarrow> (st, Threw error)
      | Inr ch \<Rightarrow> (st\<lparr>channelRef := ch\<rparr>, Returned))"

section \<open>The application (App)\<close>

text \<open>
  A rendered \<open>ChatRoom\<close>: its two props and its state. \<open>App\<close> renders the room when both
  \<open>currentUser\<close> and \<open>currentServer\<close> are set and the login form otherwise, so the state of
  \<open>App\<close> is an optional rendered room.
\<close>

record session =
  props_user :: User
  props_server :: ServerConfig
  room :: ChatRoom

text \<open>
  The user object \<open>handleLogin\<close> builds; \<open>avatarId\<close> is the random number from 1 to 70,
  \<open>now_id\<close> and \<open>now_seen\<close> the two readings of \<open>Date.now()\<close>.
\<close>

definition handleLogin :: "jstring \<Rightarrow> int \<Rightarrow> int \<Rightarrow> int \<Rightarrow> User" where
  "handleLogin nickname avatarId now_id now_seen =
     \<lparr>u_id = js_toString now_id, u_nickname = nickname,
      u_avatar = ascii ''https://picsum.photos/id/'' @ js_toString avatarId @ ascii ''/200/200'',
      u_isOnline = True, u_lastSeen = Some now_seen\<rparr>"

text \<open>
  A render of an already rendered room with new props. The element has the same type and
  place and no key, so the state is kept and \<open>useState([currentUser])\<close> is not read again.
  The user is a new object, so the network effect is cleaned up and run again; the welcome
  effect runs again when the nickname or the server name differs. \<open>now\<close> is the time of the
  welcome effect.
\<close>

definition rerender_ChatRoom :: "User \<Rightarrow> ServerConfig \<Rightarrow> int \<Rightarrow> session \<Rightarrow> session" where
  "rerender_ChatRoom newUser server now s =
     (let st1 = network_effect newUser (network_effect_cleanup (room s));
          st2 = (if u_nickname newUser \<noteq> u_nickname (props_user s)
                    \<or> cfg_name server \<noteq> cfg_name (props_server s)
                 then welcome_effect newUser server now st1 else st1)
      in \<lparr>props_user = newUser, props_server = server, room = st2\<rparr>)"

text \<open>
  The callback of the 500 ms timer that every \<open>handleLogin\<close> sets:
  \<open>setCurrentServer(server); setCurrentUser(newUser)\<close>, then the render.
\<close>

definition login_timeout :: "User \<Rightarrow> ServerConfig \<Rightarrow> int \<Rightarrow> session option \<Rightarrow> session option" where
  "login_timeout newUser server now app =
     (case app of
        None \<Rightarrow> Some \<lparr>props_user = newUser, props_server = server,
                      room = mount_ChatRoom newUser server now\<rparr>
      | Some s \<Rightarrow> Some (rerender_ChatRoom newUser server now s))"

text \<open>\<open>handleLogout\<close>: both are set to \<open>null\<close> and the room is unmounted.\<close>

definition handleLogout :: "session option \<Rightarrow> session option" where
  "handleLogout app = None"

section \<open>Delivery on the broadcast channel\<close>

text \<open>
  The rooms of the browser, one per tab. A message posted on a \<open>BroadcastChannel\<close> object
  is dispatched to every other open \<open>BroadcastChannel\<close> object of the same name and never
  to the object it was posted on. \<open>broadcast receipt i e ss\<close> hands the envelope \<open>e\<close> posted
  by room \<open>i\<close> to the \<open>onmessage\<close> of those rooms; \<open>receipt j\<close> is the time at which room
  \<open>j\<close> handles it.
\<close>

definition is_open :: "channel \<Rightarrow> bool" where
  "is_open ch = (case ch of Attached posted \<Rightarrow> True | _ \<Rightarrow> False)"

definition broadcast :: "(nat \<Rightarrow> int) \<Rightarrow> nat \<Rightarrow> Envelope \<Rightarrow> session list \<Rightarrow> session list" where
  "broadcast receipt i e ss =
     (if i < length ss then
        map (\<lambda>(j, s).
              if j \<noteq> i \<and> channelName (props_server s) = channelName (props_server (ss ! i))
                 \<and> is_open (channelRef (room s))
              then s\<lparr>room := onmessage (receipt j) e (room s)\<rparr> else s)
          (enumerate 0 ss)
      else ss)"



section \<open>An example session\<close>

text \<open>
  The first server of \<open>SERVER_LIST\<close>, a local user as \<open>handleLogin\<close> builds it, a peer as
  its envelopes describe it, and the room of the local user after its mount and the arrival
  of the peer's join envelope.
\<close>

definition demo_server :: ServerConfig where
  "demo_server = \<lparr>cfg_id = ascii ''srv-1'',
     cfg_name = [0x4E3B, 0x670D, 0x52A1, 0x5668] @ ascii '' (Main)'',
     cfg_address = ascii ''192.168.1.100:3000''\<rparr>"

definition demo_self :: User where
  "demo_self = handleLogin (ascii ''Ann'') 7 1700000000000 1700000000000"

definition demo_peer :: User where
  "demo_peer = \<lparr>u_id = ascii ''1700000000321'', u_nickname = ascii ''Bob'',
     u_avatar = ascii ''https://picsum.photos/id/9/200/200'', u_isOnline = True,
     u_lastSeen = None\<rparr>"

definition demo_welcome :: Message where
  "demo_welcome = welcomeMsg demo_self demo_server 1700000000500"

definition demo_room :: ChatRoom where
  "demo_room = onmessage 1700000001000 (USER_JOIN demo_peer)
     (mount_ChatRoom demo_self demo_server 1700000000500)"

text \<open>
  The login form submitted twice within the 500 ms: the user of the second submit, the
  application after the first and after the second timer, and the rendered room then.
\<close>

definition demo_again :: User where
  "demo_again = handleLogin (ascii ''Ann'') 12 1700000000150 1700000000150"

definition demo_app_once :: "session option" where
  "demo_app_once = login_timeout demo_self demo_server 1700000000500 None"

definition demo_app_twice :: "session option" where
  "demo_app_twice = login_timeout demo_again demo_server 1700000000650 demo_app_once"

definition demo_relogin :: session where
  "demo_relogin = \<lparr>props_user = demo_again, props_server = demo_server,
     room = (mount_ChatRoom demo_self demo_server 1700000000500)
              \<lparr>channelRef := Attached [USER_JOIN demo_again]\<rparr>\<rparr>"





definition demo_receipt :: "nat \<Rightarrow> int" where
  "demo_receipt j = 1700000005002"

text \<open>Drafts of a blank message, of two movie commands and of two assistant commands.\<close>

definition demo_blank :: ChatRoom where
  "demo_blank = demo_room\<lparr>inputText := [0x0020, 0x000A, 0x3000]\<rparr>"

definition demo_movie :: ChatRoom where
  "demo_movie = demo_room\<lparr>inputText :=
     movie_prefix @ [0x0020] @ play_word @ ascii '' http://example/x''\<rparr>"

definition demo_movie_bare :: ChatRoom where
  "demo_movie_bare = demo_room\<lparr>inputText := movie_prefix @ [0x0020] @ play_word\<rparr>"

definition demo_ask :: ChatRoom where
  "demo_ask = demo_room\<lparr>inputText := ai_prefix @ ascii '' hello''\<rparr>"

definition demo_ask_bare :: ChatRoom where
  "demo_ask_bare = demo_room\<lparr>inputText := ai_prefix\<rparr>"

text \<open>
  Networks: one that cannot be reached, and one that answers every request with status
  200 and a body whose \<open>choices[0].message.content\<close> is the given value.
\<close>

definition fetch_down :: "jstring \<Rightarrow> fetch_result" where
  "fetch_down userMessage = FetchRejected"

definition completion_body :: "json \<Rightarrow> json" where
  "completion_body content =
     JObj [(ascii ''choices'',
            JArr [JObj [(ascii ''message'', JObj [(ascii ''content'', content)])]])]"

definition fetch_content :: "json \<Rightarrow> jstring \<Rightarrow> fetch_result" where
  "fetch_content content userMessage =
     FetchResolved \<lparr>ok = True, json_body = Some (completion_body content)\<rparr>"

section \<open>Properties of the presence list\<close>

lemma findIndex_None_iff: "findIndex P xs = None \<longleftrightarrow> (\<forall>x\<in>set xs. \<not> P x)"
  by (induction xs) auto

lemma findIndex_Some:
  "findIndex P xs = Some i \<Longrightarrow> i < length xs \<and> P (xs ! i) \<and> (\<forall>j<i. \<not> P (xs ! j))"
proof (induction xs arbitrary: i)
  case Nil
  then show ?case by simp
next
  case (Cons x xs)
  show ?case
  proof (cases "P x")
    case True
    with Cons.prems show ?thesis by simp
  next
    case False
    with Cons.prems obtain k where k: "findIndex P xs = Some k" "i = Suc k"
      by auto
    from Cons.IH [OF k(1)] False k(2) show ?thesis
      by (auto simp: less_Suc_eq_0_disj)
  qed
qed

lemma presence_update_found:
  assumes "u_id user \<in> u_id ` set prev"
  shows "\<exists>i<length prev. u_id (prev ! i) = u_id user \<and>
           presence_update now user prev = prev[i := user\<lparr>u_lastSeen := Some now\<rparr>]"
proof -
  from assms have "findIndex (\<lambda>u. u_id u = u_id user) prev \<noteq> None"
    by (auto simp: findIndex_None_iff)
  then obtain i where i: "findIndex (\<lambda>u. u_id u = u_id user) prev = Some i"
    by auto
  from findIndex_Some [OF i] i show ?thesis
    by (auto simp: presence_update_def)
qed

lemma presence_update_new:
  assumes "u_id user \<notin> u_id ` set prev"
  shows "presence_update now user prev = prev @ [user\<lparr>u_lastSeen := Some now\<rparr>]"
proof -
  from assms have "findIndex (\<lambda>u. u_id u = u_id user) prev = None"
    unfolding findIndex_None_iff by (metis image_eqI)
  then show ?thesis by (simp add: presence_update_def)
qed

lemma presence_update_ids:
  "map u_id (presence_update now user prev) =
     (if u_id user \<in> u_id ` set prev then map u_id prev else map u_id prev @ [u_id user])"
proof (cases "u_id user \<in> u_id ` set prev")
  case True
  from presence_update_found [OF True, of now] obtain i where
    i: "i < length prev" "u_id (prev ! i) = u_id user"
       "presence_update now user prev = prev[i := user\<lparr>u_lastSeen := Some now\<rparr>]"
    by blast
  have "map u_id (prev[i := user\<lparr>u_lastSeen := Some now\<rparr>]) = (map u_id prev)[i := u_id user]"
    by (simp add: map_update)
  also have "\<dots> = map u_id prev"
    using i(1,2) by (metis list_update_id nth_map)
  finally show ?thesis using True i(3) by simp
next
  case False
  then show ?thesis by (simp add: presence_update_new)
qed

lemma presence_update_lastSeen:
  assumes "\<forall>u\<in>set prev. u_id u \<noteq> c \<longrightarrow> u_lastSeen u \<noteq> None"
  shows "\<forall>u\<in>set (presence_update now user prev). u_id u \<noteq> c \<longrightarrow> u_lastSeen u \<noteq> None"
proof (cases "u_id user \<in> u_id ` set prev")
  case True
  from presence_update_found [OF True, of now] obtain i where
    i: "presence_update now user prev = prev[i := user\<lparr>u_lastSeen := Some now\<rparr>]"
    by blast
  have "set (prev[i := user\<lparr>u_lastSeen := Some now\<rparr>]) \<subseteq> insert (user\<lparr>u_lastSeen := Some now\<rparr>) (set prev)"
    by (rule set_update_subset_insert)
  with assms i show ?thesis by auto
next
  case False
  with assms show ?thesis by (auto simp: presence_update_new)
qed

lemma presence_reachable_inv: "presence_reachable c us \<Longrightarrow> presence_inv c us"
proof (induction rule: presence_reachable.induct)
  case initial
  show ?case by (simp add: presence_inv_def)
next
  case (received prev now user)
  then have d: "distinct (map u_id prev)" and s: "u_id c \<in> u_id ` set prev"
    and l: "\<forall>u\<in>set prev. u_id u \<noteq> u_id c \<longrightarrow> u_lastSeen u \<noteq> None"
    by (simp_all add: presence_inv_def)
  have "distinct (map u_id (presence_update now user prev))"
    using d by (auto simp: presence_update_ids)
  moreover have "u_id c \<in> set (map u_id (presence_update now user prev))"
    using s unfolding presence_update_ids by auto
  ultimately show ?case
    using presence_update_lastSeen [OF l] by (simp add: presence_inv_def)
next
  case (tick prev now)
  then show ?case
    by (auto simp: presence_inv_def cleanup_def distinct_map_filter)
qed

lemma demo_self_id: "u_id demo_self = ascii ''1700000000000''"
  by (simp add: demo_self_def handleLogin_def js_toString_def digits.simps ascii_def)

lemma demo_ids: "u_id demo_peer \<noteq> u_id demo_self"
  by (simp add: demo_self_id) (simp add: demo_peer_def ascii_def)

lemma demo_mount:
  "mount_ChatRoom currentUser serverConfig now =
     \<lparr>messages = [welcomeMsg currentUser serverConfig now], inputText = [],
      onlineUsers = [currentUser], showEmojiPicker = False, isAiThinking = False,
      channelRef = Attached [USER_JOIN currentUser]\<rparr>"
  by (simp add: mount_ChatRoom_def welcome_effect_def network_effect_def initial_ChatRoom_def)

lemma demo_users:
  "onlineUsers demo_room = [demo_self, demo_peer\<lparr>u_lastSeen := Some 1700000001000\<rparr>]"
  using demo_ids
  by (simp add: demo_room_def onmessage_def demo_mount presence_update_def)

lemma demo_reachable: "presence_reachable demo_self (onlineUsers demo_room)"
proof -
  have "presence_reachable demo_self (presence_update 1700000001000 demo_peer [demo_self])"
    by (intro presence_reachable.intros)
  then show ?thesis
    by (simp add: demo_room_def onmessage_def demo_mount)
qed

text \<open>
  Claim C1. In a presence list the session can hold, every entry of a peer other than the
  local user carries a \<open>lastSeen\<close>; a cleanup tick at local time \<open>now\<close> with
  \<open>now - lastSeen \<ge> 3000\<close> leaves no entry with that peer's id in the list, and a tick
  with \<open>now - lastSeen < 3000\<close> keeps the peer's entry.
\<close>

theorem cleanup_tick_evicts_stale_peers:
  assumes "presence_reachable currentUser (onlineUsers st)"
    and "u \<in> set (onlineUsers st)"
    and "u_id u \<noteq> u_id currentUser"
  shows "\<exists>seen. u_lastSeen u = Some seen \<and>
     (3000 \<le> now - seen \<longrightarrow>
        u_id u \<notin> u_id ` set (onlineUsers (cleanup_tick currentUser now st))) \<and>
     (now - seen < 3000 \<longrightarrow> u \<in> set (onlineUsers (cleanup_tick currentUser now st)))"
proof -
  from presence_reachable_inv [OF assms(1)]
  have d: "distinct (map u_id (onlineUsers st))"
    and l: "\<forall>v\<in>set (onlineUsers st). u_id v \<noteq> u_id currentUser \<longrightarrow> u_lastSeen v \<noteq> None"
    by (simp_all add: presence_inv_def)
  from l assms(2,3) obtain seen where seen: "u_lastSeen u = Some seen"
    by auto
  have after: "onlineUsers (cleanup_tick currentUser now st) =
      cleanup currentUser now (onlineUsers st)"
    by (simp add: cleanup_tick_def)
  have stale: "u_id u \<notin> u_id ` set (cleanup currentUser now (onlineUsers st))"
    if "3000 \<le> now - seen"
  proof
    assume "u_id u \<in> u_id ` set (cleanup currentUser now (onlineUsers st))"
    then obtain v where v: "v \<in> set (cleanup currentUser now (onlineUsers st))"
      and same: "u_id v = u_id u"
      by auto
    from v have "v \<in> set (onlineUsers st)"
      by (simp add: cleanup_def)
    with d assms(2) same have "v = u"
      by (meson distinct_map inj_onD)
    with v assms(3) seen that show False
      by (simp add: cleanup_def lastSeen_or_0_def)
  qed
  have fresh: "u \<in> set (cleanup currentUser now (onlineUsers st))" if "now - seen < 3000"
    using that assms(2) seen by (simp add: cleanup_def lastSeen_or_0_def)
  from seen stale fresh show ?thesis
    unfolding after by blast
qed

theorem cleanup_tick_evicts_stale_peers_witness:
  "presence_reachable demo_self (onlineUsers demo_room) \<and>
   demo_peer\<lparr>u_lastSeen := Some 1700000001000\<rparr> \<in> set (onlineUsers demo_room) \<and>
   u_id (demo_peer\<lparr>u_lastSeen := Some 1700000001000\<rparr>) \<noteq> u_id demo_self \<and>
   u_id demo_peer \<notin> u_id ` set (onlineUsers (cleanup_tick demo_self 1700000004000 demo_room)) \<and>
   demo_peer\<lparr>u_lastSeen := Some 1700000001000\<rparr>
     \<in> set (onlineUsers (cleanup_tick demo_self 1700000003999 demo_room))"
proof -
  let ?u = "demo_peer\<lparr>u_lastSeen := Some 1700000001000\<rparr>"
  have h2: "?u \<in> set (onlineUsers demo_room)"
    by (simp add: demo_users)
  have h3: "u_id ?u \<noteq> u_id demo_self"
    using demo_ids by simp
  from cleanup_tick_evicts_stale_peers [OF demo_reachable h2 h3, of 1700000004000]
       cleanup_tick_evicts_stale_peers [OF demo_reachable h2 h3, of 1700000003999]
       demo_reachable h2 h3
  show ?thesis by simp
qed

text \<open>
  For as long as the room is rendered for one user, its presence list starts as the list of
  that user alone, every list reached by received envelopes and cleanup ticks has an entry
  with the user's id, and a cleanup tick keeps every entry with that id as it is.
\<close>

lemma self_kept_for_one_user:
  assumes "presence_reachable currentUser (onlineUsers st)"
  shows "onlineUsers (initial_ChatRoom currentUser) = [currentUser] \<and>
     u_id currentUser \<in> u_id ` set (onlineUsers st) \<and>
     filter (\<lambda>u. u_id u = u_id currentUser) (onlineUsers (cleanup_tick currentUser now st))
       = filter (\<lambda>u. u_id u = u_id currentUser) (onlineUsers st)"
proof -
  from presence_reachable_inv [OF assms]
  have "u_id currentUser \<in> u_id ` set (onlineUsers st)"
    by (simp add: presence_inv_def)
  moreover have "filter (\<lambda>u. u_id u = u_id currentUser) (cleanup currentUser now us)
       = filter (\<lambda>u. u_id u = u_id currentUser) us" for us
    by (induction us) (simp_all add: cleanup_def)
  ultimately show ?thesis
    by (simp add: cleanup_tick_def initial_ChatRoom_def)
qed

lemma demo_again_id: "u_id demo_again = ascii ''1700000000150''"
  by (simp add: demo_again_def handleLogin_def js_toString_def digits.simps ascii_def)

lemma demo_again_differs: "u_id demo_again \<noteq> u_id demo_self"
  by (simp add: demo_again_id demo_self_id) (simp add: ascii_def)

lemma demo_same_nickname: "u_nickname demo_again = u_nickname demo_self"
  by (simp add: demo_again_def demo_self_def handleLogin_def)

lemma demo_self_seen: "lastSeen_or_0 demo_self = 1700000000000"
  by (simp add: demo_self_def handleLogin_def lastSeen_or_0_def)

lemma demo_app_twice_eq: "demo_app_twice = Some demo_relogin"
  using demo_same_nickname
  by (simp add: demo_app_twice_def demo_app_once_def login_timeout_def rerender_ChatRoom_def
      network_effect_def network_effect_cleanup_def demo_mount demo_relogin_def Let_def)

lemma broadcast_alone: "broadcast receipt 0 e [s] = [s]"
  by (simp add: broadcast_def enumerate_eq_zip)

text \<open>
  Claim C2. The claim fails on the code when the login form is submitted twice within the
  500 ms of the timer. The second timer renders the mounted room for a second user object
  with a new id; the presence list is still the list of the first user and has no entry
  with the local id, the room's own join envelope does not come back to it, and the cleanup
  tick, which now spares the new id only, evicts the first user's entry and leaves the list
  empty.
\<close>

theorem self_lost_after_second_login:
  "demo_app_twice = Some demo_relogin \<and>
   props_user demo_relogin = demo_again \<and>
   onlineUsers (room demo_relogin) = [demo_self] \<and>
   u_id demo_again \<notin> u_id ` set (onlineUsers (room demo_relogin)) \<and>
   channelRef (room demo_relogin) = Attached [USER_JOIN demo_again] \<and>
   broadcast demo_receipt 0 (USER_JOIN demo_again) [demo_relogin] = [demo_relogin] \<and>
   onlineUsers (cleanup_tick (props_user demo_relogin) 1700000003500 (room demo_relogin)) = []"
  using demo_again_differs demo_self_seen
  by (simp add: demo_app_twice_eq broadcast_alone)
     (simp add: demo_relogin_def demo_mount cleanup_tick_def cleanup_def)

lemma filter_update_unique:
  assumes "distinct (map f xs)" and "i < length xs" and "f e = f (xs ! i)"
  shows "filter (\<lambda>x. f x = f e) (xs[i := e]) = [e]"
  using assms
proof (induction xs arbitrary: i)
  case Nil
  then show ?case by simp
next
  case (Cons x xs)
  show ?case
  proof (cases i)
    case 0
    with Cons.prems have "f e \<notin> f ` set xs"
      by simp
    then have "\<forall>y\<in>set xs. f y \<noteq> f e"
      by (metis image_eqI)
    then have "filter (\<lambda>x. f x = f e) xs = []"
      by (simp add: filter_empty_conv)
    with 0 show ?thesis by simp
  next
    case (Suc k)
    with Cons.prems have "f x \<notin> f ` set xs" and "xs ! k \<in> set xs" and "f e = f (xs ! k)"
      by simp_all
    then have "f x \<noteq> f e"
      by (metis image_eqI)
    moreover from Suc Cons.prems have "filter (\<lambda>x. f x = f e) (xs[k := e]) = [e]"
      by (intro Cons.IH) auto
    ultimately show ?thesis using Suc by simp
  qed
qed

text \<open>
  Claim C3. On a \<open>USER_JOIN\<close> or \<open>HEARTBEAT\<close> envelope for user \<open>U\<close> received at local
  time \<open>now\<close>: when the list has an entry with \<open>U\<close>'s id, that entry is replaced in
  place by \<open>U\<close>'s fields with \<open>lastSeen = now\<close>, the length of the list is unchanged and
  the new entry is the only one with that id; otherwise \<open>U\<close> with \<open>lastSeen = now\<close> is
  appended.
\<close>

theorem join_or_heartbeat_upserts:
  assumes "data = USER_JOIN user \<or> data = HEARTBEAT user"
    and "presence_reachable currentUser (onlineUsers st)"
  shows "(u_id user \<in> u_id ` set (onlineUsers st) \<longrightarrow>
            length (onlineUsers (onmessage now data st)) = length (onlineUsers st) \<and>
            (\<exists>i<length (onlineUsers st). u_id (onlineUsers st ! i) = u_id user \<and>
               onlineUsers (onmessage now data st)
                 = (onlineUsers st)[i := user\<lparr>u_lastSeen := Some now\<rparr>]) \<and>
            filter (\<lambda>u. u_id u = u_id user) (onlineUsers (onmessage now data st))
              = [user\<lparr>u_lastSeen := Some now\<rparr>]) \<and>
         (u_id user \<notin> u_id ` set (onlineUsers st) \<longrightarrow>
            onlineUsers (onmessage now data st)
              = onlineUsers st @ [user\<lparr>u_lastSeen := Some now\<rparr>])"
proof -
  let ?prev = "onlineUsers st" and ?e = "user\<lparr>u_lastSeen := Some now\<rparr>"
  from assms(1) have after: "onlineUsers (onmessage now data st) = presence_update now user ?prev"
    by (auto simp: onmessage_def)
  from presence_reachable_inv [OF assms(2)] have d: "distinct (map u_id ?prev)"
    by (simp add: presence_inv_def)
  have known: "length (presence_update now user ?prev) = length ?prev \<and>
      (\<exists>i<length ?prev. u_id (?prev ! i) = u_id user \<and>
         presence_update now user ?prev = ?prev[i := ?e]) \<and>
      filter (\<lambda>u. u_id u = u_id user) (presence_update now user ?prev) = [?e]"
    if "u_id user \<in> u_id ` set ?prev"
  proof -
    from presence_update_found [OF that, of now] obtain i where
      i: "i < length ?prev" "u_id (?prev ! i) = u_id user"
         "presence_update now user ?prev = ?prev[i := ?e]"
      by blast
    have "filter (\<lambda>u. u_id u = u_id ?e) (?prev[i := ?e]) = [?e]"
      using d i(1,2) by (intro filter_update_unique) simp_all
    with i show ?thesis by auto
  qed
  have new: "presence_update now user ?prev = ?prev @ [?e]"
    if "u_id user \<notin> u_id ` set ?prev"
    using that by (rule presence_update_new)
  from known new show ?thesis
    unfolding after by blast
qed

theorem join_or_heartbeat_upserts_witness:
  "presence_reachable demo_self (onlineUsers demo_room) \<and>
   u_id demo_peer \<in> u_id ` set (onlineUsers demo_room) \<and>
   length (onlineUsers (onmessage 1700000002000 (HEARTBEAT demo_peer) demo_room)) = 2 \<and>
   onlineUsers (onmessage 1700000002000 (HEARTBEAT demo_peer) demo_room)
     = [demo_self, demo_peer\<lparr>u_lastSeen := Some 1700000002000\<rparr>] \<and>
   filter (\<lambda>u. u_id u = u_id demo_peer)
       (onlineUsers (onmessage 1700000002000 (HEARTBEAT demo_peer) demo_room))
     = [demo_peer\<lparr>u_lastSeen := Some 1700000002000\<rparr>]"
proof -
  have h1: "HEARTBEAT demo_peer = USER_JOIN demo_peer \<or> HEARTBEAT demo_peer = HEARTBEAT demo_peer"
    by simp
  have h3: "u_id demo_peer \<in> u_id ` set (onlineUsers demo_room)"
    by (simp add: demo_users)
  from join_or_heartbeat_upserts [OF h1 demo_reachable, of 1700000002000] h3 demo_reachable demo_ids
  show ?thesis
    by (auto simp: demo_users nth_Cons split: nat.splits)
qed

section \<open>Properties of the string functions and of the assistant pattern\<close>

lemma js_trim_blank_iff: "js_trim s = [] \<longleftrightarrow> (\<forall>c\<in>set s. is_space c)"
proof
  assume "js_trim s = []"
  then have all: "\<forall>c\<in>set (dropWhile is_space s). is_space c"
    by (simp add: js_trim_def dropWhile_eq_Nil_conv)
  have "dropWhile is_space s = []"
  proof (rule ccontr)
    assume ne: "dropWhile is_space s \<noteq> []"
    then have "\<not> is_space (hd (dropWhile is_space s))"
      by (rule hd_dropWhile)
    moreover from ne have "hd (dropWhile is_space s) \<in> set (dropWhile is_space s)"
      by (rule hd_in_set)
    ultimately show False using all by blast
  qed
  then show "\<forall>c\<in>set s. is_space c"
    by simp
next
  assume "\<forall>c\<in>set s. is_space c"
  then have e: "dropWhile is_space s = []"
    by simp
  show "js_trim s = []"
    unfolding js_trim_def e by simp
qed

lemma js_replace_first_prefix:
  "js_startsWith s p \<Longrightarrow> js_replace_first p s = drop (length p) s"
  by (cases s) (auto simp: js_startsWith_def)

lemma dot_star_end_eq:
  "dot_star_end s = (if \<exists>c\<in>set s. is_line_terminator c then None else Some s)"
  by (induction s) auto

lemma space_star_rest_eq:
  "space_star_rest s = dot_star_end (dropWhile is_space s)"
proof (induction s)
  case Nil
  show ?case by simp
next
  case (Cons c cs)
  show ?case
  proof (cases "is_space c")
    case False
    then show ?thesis by simp
  next
    case True
    have "dot_star_end (c # cs) = None" if "dot_star_end (dropWhile is_space cs) = None"
    proof -
      from that obtain d where "d \<in> set (dropWhile is_space cs)" "is_line_terminator d"
        by (auto simp: dot_star_end_eq split: if_splits)
      then have "d \<in> set (c # cs)" "is_line_terminator d"
        by (auto dest: set_dropWhileD)
      then show ?thesis
        unfolding dot_star_end_eq by (meson)
    qed
    with True Cons.IH show ?thesis
      by (simp split: option.splits)
  qed
qed

lemma aiRegex_match_Some:
  "aiRegex_match s = Some capture \<longleftrightarrow>
     js_startsWith s ai_prefix \<and> capture = dropWhile is_space (drop (length ai_prefix) s) \<and>
     (\<forall>c\<in>set capture. \<not> is_line_terminator c)"
  by (auto simp: aiRegex_match_def space_star_rest_eq dot_star_end_eq)

lemma prefixes_exclusive: "js_startsWith s movie_prefix \<Longrightarrow> \<not> js_startsWith s ai_prefix"
  by (cases s; cases "tl s") (auto simp: js_startsWith_def movie_prefix_def ai_prefix_def)

section \<open>Properties of sending\<close>

lemma handleSendMessage_messages:
  assumes "js_trim (inputText st) \<noteq> []"
  shows "messages (fst (handleSendMessage currentUser now_id now_ts st))
           = messages st @ [newMessage currentUser now_id now_ts (js_trim (inputText st))]"
  using assms
  by (cases "channelRef st")
     (simp_all add: handleSendMessage_def postMessage_def Let_def split: option.splits)

lemma handleSendMessage_outcome:
  assumes "js_trim (inputText st) \<noteq> []" and "channelRef st \<noteq> Closed"
  shows "snd (handleSendMessage currentUser now_id now_ts st) =
     (if js_startsWith (js_trim (inputText st)) movie_prefix then
        (if js_trim (js_replace_all play_word
               (js_replace_first movie_prefix (js_trim (inputText st)))) \<noteq> []
         then TimerSet (js_trim (js_replace_all play_word
               (js_replace_first movie_prefix (js_trim (inputText st)))))
         else Returned)
      else (case aiRegex_match (js_trim (inputText st)) of
              Some capture \<Rightarrow> AwaitingAi (if capture \<noteq> [] then capture else default_query)
            | None \<Rightarrow> Returned))"
  using assms
  by (cases "channelRef st")
     (simp_all add: handleSendMessage_def postMessage_def Let_def split: option.splits)

lemma handleSendMessage_flag:
  "isAiThinking (fst (handleSendMessage currentUser now_id now_ts st)) =
     (if (\<exists>q. snd (handleSendMessage currentUser now_id now_ts st) = AwaitingAi q)
      then True else isAiThinking st)"
  by (cases "channelRef st")
     (simp_all add: handleSendMessage_def postMessage_def Let_def split: option.splits)

text \<open>
  Claim C10. When the input text is empty or has only whitespace characters, the handler
  returns at once: the state, and with it the transcript and the channel, is unchanged, and
  neither the timer of the movie bot is set nor the assistant called.
\<close>

theorem blank_send_is_noop:
  assumes "\<forall>c\<in>set (inputText st). is_space c"
  shows "handleSendMessage currentUser now_id now_ts st = (st, Returned)"
proof -
  from assms have "js_trim (inputText st) = []"
    by (simp only: js_trim_blank_iff)
  then show ?thesis
    by (simp add: handleSendMessage_def)
qed

theorem blank_send_is_noop_witness:
  "is_space 0x0020 \<and> is_space 0x000A \<and> is_space 0x3000 \<and>
   handleSendMessage demo_self 1700000005000 1700000005001 demo_blank = (demo_blank, Returned)"
proof -
  have h: "\<forall>c\<in>set (inputText demo_blank). is_space c"
    by (simp add: demo_blank_def is_space_def is_line_terminator_def)
  from blank_send_is_noop [OF h, of demo_self 1700000005000 1700000005001]
  show ?thesis
    by (simp add: is_space_def is_line_terminator_def)
qed

lemma prefix_nonempty:
  "js_startsWith s ai_prefix \<Longrightarrow> s \<noteq> []"
  "js_startsWith s movie_prefix \<Longrightarrow> s \<noteq> []"
  by (auto simp: js_startsWith_def ai_prefix_def movie_prefix_def)

text \<open>
  Claim C9. When the trimmed input matches the assistant pattern and the channel takes the
  user's message, the handler calls the assistant with the text captured by the group, which
  is the text behind the prefix without its leading space characters, or with the default
  query when that text is empty.
\<close>

theorem assistant_query_is_capture:
  assumes "aiRegex_match (js_trim (inputText st)) = Some capture"
    and "channelRef st \<noteq> Closed"
  shows "capture = dropWhile is_space (drop (length ai_prefix) (js_trim (inputText st))) \<and>
         snd (handleSendMessage currentUser now_id now_ts st)
           = AwaitingAi (if capture = [] then default_query else capture)"
proof -
  let ?c = "js_trim (inputText st)"
  from assms(1) have p: "js_startsWith ?c ai_prefix"
    and cap: "capture = dropWhile is_space (drop (length ai_prefix) ?c)"
    by (simp_all add: aiRegex_match_Some)
  from p have nb: "?c \<noteq> []"
    by (rule prefix_nonempty)
  from p have nm: "\<not> js_startsWith ?c movie_prefix"
    using prefixes_exclusive by blast
  from handleSendMessage_outcome [OF nb assms(2), of currentUser now_id now_ts] nm assms(1)
  have "snd (handleSendMessage currentUser now_id now_ts st)
           = AwaitingAi (if capture = [] then default_query else capture)"
    by simp
  with cap show ?thesis by blast
qed

theorem assistant_query_is_capture_witness:
  "aiRegex_match (js_trim (inputText demo_ask)) = Some (ascii ''hello'') \<and>
   channelRef demo_ask \<noteq> Closed \<and>
   snd (handleSendMessage demo_self 1700000005000 1700000005001 demo_ask)
     = AwaitingAi (ascii ''hello'') \<and>
   aiRegex_match (js_trim (inputText demo_ask_bare)) = Some [] \<and>
   channelRef demo_ask_bare \<noteq> Closed \<and>
   snd (handleSendMessage demo_self 1700000005000 1700000005001 demo_ask_bare)
     = AwaitingAi default_query"
proof -
  have t1: "js_trim (inputText demo_ask) = ai_prefix @ ascii '' hello''"
    by (simp add: demo_ask_def js_trim_def ai_prefix_def ascii_def is_space_def
        is_line_terminator_def)
  have m1: "aiRegex_match (js_trim (inputText demo_ask)) = Some (ascii ''hello'')"
    unfolding t1
    by (simp add: aiRegex_match_def js_startsWith_def ai_prefix_def ascii_def is_space_def
        is_line_terminator_def)
  have c1: "channelRef demo_ask \<noteq> Closed"
    by (simp add: demo_ask_def demo_room_def onmessage_def demo_mount)
  have t2: "js_trim (inputText demo_ask_bare) = ai_prefix"
    by (simp add: demo_ask_bare_def js_trim_def ai_prefix_def is_space_def
        is_line_terminator_def)
  have m2: "aiRegex_match (js_trim (inputText demo_ask_bare)) = Some []"
    unfolding t2 by (simp add: aiRegex_match_def js_startsWith_def)
  have c2: "channelRef demo_ask_bare \<noteq> Closed"
    by (simp add: demo_ask_bare_def demo_room_def onmessage_def demo_mount)
  have ne: "ascii ''hello'' \<noteq> []"
    by (simp add: ascii_def)
  from assistant_query_is_capture [OF m1 c1, of demo_self 1700000005000 1700000005001]
       assistant_query_is_capture [OF m2 c2, of demo_self 1700000005000 1700000005001]
       m1 c1 m2 c2 ne
  show ?thesis by simp
qed

lemma demo_room_channel: "channelRef demo_room = Attached [USER_JOIN demo_self]"
  by (simp add: demo_room_def onmessage_def demo_mount)

lemma demo_room_messages: "messages demo_room = [demo_welcome]"
  by (simp add: demo_room_def onmessage_def demo_mount demo_welcome_def)

lemma demo_room_flag: "isAiThinking demo_room = False"
  by (simp add: demo_room_def onmessage_def demo_mount)

lemma demo_movie_trim:
  "js_trim (inputText demo_movie)
     = movie_prefix @ [0x0020] @ play_word @ ascii '' http://example/x''"
  by (simp add: demo_movie_def js_trim_def movie_prefix_def play_word_def ascii_def
      is_space_def is_line_terminator_def)

lemma demo_movie_bare_trim:
  "js_trim (inputText demo_movie_bare) = movie_prefix @ [0x0020] @ play_word"
  by (simp add: demo_movie_bare_def js_trim_def movie_prefix_def play_word_def
      is_space_def is_line_terminator_def)

lemma demo_movie_prefix: "js_startsWith (js_trim (inputText demo_movie)) movie_prefix"
  unfolding demo_movie_trim by (simp add: js_startsWith_def)

lemma demo_movie_bare_prefix: "js_startsWith (js_trim (inputText demo_movie_bare)) movie_prefix"
  unfolding demo_movie_bare_trim by (simp add: js_startsWith_def)

lemma demo_movie_target:
  "js_trim (js_replace_all play_word
      (drop (length movie_prefix) (js_trim (inputText demo_movie)))) = ascii ''http://example/x''"
  unfolding demo_movie_trim
  by (simp add: js_trim_def movie_prefix_def play_word_def ascii_def
      is_space_def is_line_terminator_def)

lemma demo_movie_bare_target:
  "js_trim (js_replace_all play_word
      (drop (length movie_prefix) (js_trim (inputText demo_movie_bare)))) = []"
  unfolding demo_movie_bare_trim
  by (simp add: js_trim_def movie_prefix_def play_word_def
      is_space_def is_line_terminator_def)

text \<open>
  Claim C6. When the trimmed input starts with the movie prefix, the handler never reaches
  the call of the assistant, whatever the target is: it is not suspended in that call, the
  thinking flag keeps its value, and the only message added to the transcript is the
  user's.
\<close>

theorem movie_command_excludes_assistant:
  assumes "js_startsWith (js_trim (inputText st)) movie_prefix"
  shows "(\<forall>query. snd (handleSendMessage currentUser now_id now_ts st) \<noteq> AwaitingAi query) \<and>
         isAiThinking (fst (handleSendMessage currentUser now_id now_ts st)) = isAiThinking st \<and>
         messages (fst (handleSendMessage currentUser now_id now_ts st))
           = messages st @ [newMessage currentUser now_id now_ts (js_trim (inputText st))]"
proof -
  let ?c = "js_trim (inputText st)"
  from assms have nb: "?c \<noteq> []"
    by (rule prefix_nonempty)
  have no_ai: "snd (handleSendMessage currentUser now_id now_ts st) \<noteq> AwaitingAi query"
    for query
  proof (cases "channelRef st = Closed")
    case True
    with nb show ?thesis
      by (simp add: handleSendMessage_def postMessage_def Let_def)
  next
    case False
    from handleSendMessage_outcome [OF nb False, of currentUser now_id now_ts] assms
    show ?thesis by simp
  qed
  then have "isAiThinking (fst (handleSendMessage currentUser now_id now_ts st)) = isAiThinking st"
    by (simp add: handleSendMessage_flag)
  with no_ai handleSendMessage_messages [OF nb, of currentUser now_id now_ts]
  show ?thesis by blast
qed

theorem movie_command_excludes_assistant_witness:
  "js_startsWith (js_trim (inputText demo_movie)) movie_prefix \<and>
   snd (handleSendMessage demo_self 1700000005000 1700000005001 demo_movie)
     \<noteq> AwaitingAi default_query \<and>
   isAiThinking (fst (handleSendMessage demo_self 1700000005000 1700000005001 demo_movie))
     = False \<and>
   js_startsWith (js_trim (inputText demo_movie_bare)) movie_prefix \<and>
   snd (handleSendMessage demo_self 1700000005000 1700000005001 demo_movie_bare)
     \<noteq> AwaitingAi default_query \<and>
   isAiThinking (fst (handleSendMessage demo_self 1700000005000 1700000005001 demo_movie_bare))
     = False"
proof -
  have f1: "isAiThinking demo_movie = False" and f2: "isAiThinking demo_movie_bare = False"
    by (simp_all add: demo_movie_def demo_movie_bare_def demo_room_flag)
  from movie_command_excludes_assistant
         [OF demo_movie_prefix, of demo_self 1700000005000 1700000005001]
       movie_command_excludes_assistant
         [OF demo_movie_bare_prefix, of demo_self 1700000005000 1700000005001]
       demo_movie_prefix demo_movie_bare_prefix f1 f2
  show ?thesis by simp
qed

text \<open>
  Claim C5. When the trimmed input starts with the movie prefix and the channel takes the
  user's message, the target is the input without the prefix, without the occurrences of
  the filler word, trimmed. With an empty target the handler returns without setting the
  timer, and the transcript has gained the user's message only. Otherwise the timer is set
  for the target, and its callback appends and publishes a message of type \<open>VIDEO\<close> whose
  \<open>videoUrl\<close> is the parser URL followed by the target, character for character.
\<close>

theorem movie_command_target:
  assumes "js_startsWith (js_trim (inputText st)) movie_prefix"
    and "channelRef st \<noteq> Closed"
    and "rawTarget = js_trim (js_replace_all play_word
           (drop (length movie_prefix) (js_trim (inputText st))))"
  shows "snd (handleSendMessage currentUser now_id now_ts st)
           = (if rawTarget = [] then Returned else TimerSet rawTarget) \<and>
         messages (fst (handleSendMessage currentUser now_id now_ts st))
           = messages st @ [newMessage currentUser now_id now_ts (js_trim (inputText st))] \<and>
         messages (fst (movie_timeout rawTarget t_id t_ts st'))
           = messages st' @ [movieBotMsg rawTarget t_id t_ts] \<and>
         m_type (movieBotMsg rawTarget t_id t_ts) = VIDEO \<and>
         m_videoUrl (movieBotMsg rawTarget t_id t_ts) = Some (VIDEO_PARSER_URL @ rawTarget) \<and>
         (\<forall>posted. channelRef st' = Attached posted \<longrightarrow>
            channelRef (fst (movie_timeout rawTarget t_id t_ts st'))
              = Attached (posted @ [NEW_MESSAGE (movieBotMsg rawTarget t_id t_ts)]))"
proof -
  let ?c = "js_trim (inputText st)"
  from assms(1) have nb: "?c \<noteq> []"
    by (rule prefix_nonempty)
  from assms(1) have strip: "js_replace_first movie_prefix ?c = drop (length movie_prefix) ?c"
    by (rule js_replace_first_prefix)
  from handleSendMessage_outcome [OF nb assms(2), of currentUser now_id now_ts] assms(1,3)
  have "snd (handleSendMessage currentUser now_id now_ts st)
           = (if rawTarget = [] then Returned else TimerSet rawTarget)"
    by (simp add: strip)
  moreover have "messages (fst (movie_timeout rawTarget t_id t_ts st'))
           = messages st' @ [movieBotMsg rawTarget t_id t_ts]"
    by (cases "channelRef st'") (simp_all add: movie_timeout_def postMessage_def Let_def)
  moreover have "m_type (movieBotMsg rawTarget t_id t_ts) = VIDEO"
    and "m_videoUrl (movieBotMsg rawTarget t_id t_ts) = Some (VIDEO_PARSER_URL @ rawTarget)"
    by (simp_all add: movieBotMsg_def)
  moreover have "channelRef (fst (movie_timeout rawTarget t_id t_ts st'))
              = Attached (posted @ [NEW_MESSAGE (movieBotMsg rawTarget t_id t_ts)])"
    if "channelRef st' = Attached posted" for posted
    using that by (simp add: movie_timeout_def postMessage_def Let_def)
  ultimately show ?thesis
    using handleSendMessage_messages [OF nb, of currentUser now_id now_ts] by blast
qed

theorem movie_command_target_witness:
  "js_startsWith (js_trim (inputText demo_movie)) movie_prefix \<and>
   channelRef demo_movie \<noteq> Closed \<and>
   snd (handleSendMessage demo_self 1700000005000 1700000005001 demo_movie)
     = TimerSet (ascii ''http://example/x'') \<and>
   m_videoUrl (movieBotMsg (ascii ''http://example/x'') 1700000005600 1700000005601)
     = Some (ascii ''https://jx.xmflv.com/?url=http://example/x'') \<and>
   js_startsWith (js_trim (inputText demo_movie_bare)) movie_prefix \<and>
   channelRef demo_movie_bare \<noteq> Closed \<and>
   handleSendMessage demo_self 1700000005000 1700000005001 demo_movie_bare
     = (fst (handleSendMessage demo_self 1700000005000 1700000005001 demo_movie_bare), Returned) \<and>
   messages (fst (handleSendMessage demo_self 1700000005000 1700000005001 demo_movie_bare))
     = [demo_welcome,
        newMessage demo_self 1700000005000 1700000005001 (movie_prefix @ [0x0020] @ play_word)]"
proof -
  have c1: "channelRef demo_movie \<noteq> Closed" and c2: "channelRef demo_movie_bare \<noteq> Closed"
    by (simp_all add: demo_movie_def demo_movie_bare_def demo_room_channel)
  have m2: "messages demo_movie_bare = [demo_welcome]"
    by (simp add: demo_movie_bare_def demo_room_messages)
  have ne: "ascii ''http://example/x'' \<noteq> []"
    by (simp add: ascii_def)
  have url: "VIDEO_PARSER_URL @ ascii ''http://example/x''
      = ascii ''https://jx.xmflv.com/?url=http://example/x''"
    by (simp add: VIDEO_PARSER_URL_def ascii_def)
  from movie_command_target [OF demo_movie_prefix c1 demo_movie_target [symmetric],
         of demo_self 1700000005000 1700000005001 1700000005600 1700000005601]
       movie_command_target [OF demo_movie_bare_prefix c2 demo_movie_bare_target [symmetric],
         of demo_self 1700000005000 1700000005001]
       demo_movie_prefix demo_movie_bare_prefix c1 c2 m2 ne url demo_movie_bare_trim
  show ?thesis
    by (simp add: prod_eq_iff)
qed


subsection \<open>Sending with delivery\<close>

lemma length_broadcast: "length (broadcast receipt i e ss) = length ss"
  by (simp add: broadcast_def)






section \<open>Properties of the assistant call\<close>

lemma sendMessageToAi_returns: "\<exists>reply. sendMessageToAi fetch userMessage = Inr reply"
  by (simp add: sendMessageToAi_def split: sum.splits)

lemma ai_resume_flag: "isAiThinking (fst (ai_resume result now_id now_ts st)) = False"
  by (simp add: ai_resume_def split: prod.splits)

lemma ai_resume_published:
  assumes "channelRef st = Attached posted"
  shows "ai_resume (Inr reply) now_id now_ts st =
     (st\<lparr>messages := messages st @ [aiMessage reply now_id now_ts],
         channelRef := Attached (posted @ [NEW_MESSAGE (aiMessage reply now_id now_ts)]),
         isAiThinking := False\<rparr>, Returned)"
  using assms by (simp add: ai_resume_def ai_try_def postMessage_def Let_def)

lemma demo_ask_run:
  "handleSendMessage demo_self 1700000005000 1700000005001 demo_ask
     = (fst (handleSendMessage demo_self 1700000005000 1700000005001 demo_ask),
        AwaitingAi (ascii ''hello''))"
proof -
  have t: "js_trim (inputText demo_ask) = ai_prefix @ ascii '' hello''"
    by (simp add: demo_ask_def js_trim_def ai_prefix_def ascii_def is_space_def
        is_line_terminator_def)
  have m: "aiRegex_match (js_trim (inputText demo_ask)) = Some (ascii ''hello'')"
    unfolding t
    by (simp add: aiRegex_match_def js_startsWith_def ai_prefix_def ascii_def is_space_def
        is_line_terminator_def)
  have c: "channelRef demo_ask \<noteq> Closed"
    by (simp add: demo_ask_def demo_room_channel)
  have ne: "ascii ''hello'' \<noteq> []"
    by (simp add: ascii_def)
  have nb: "js_trim (inputText demo_ask) \<noteq> []"
    unfolding t by (simp add: ai_prefix_def)
  have nm: "\<not> js_startsWith (js_trim (inputText demo_ask)) movie_prefix"
    unfolding t by (simp add: js_startsWith_def ai_prefix_def movie_prefix_def)
  from handleSendMessage_outcome [OF nb c, of demo_self 1700000005000 1700000005001] nm m ne
  show ?thesis
    by (simp add: prod_eq_iff)
qed

lemma content_path_completion: "content_path (completion_body v) = Some v"
  by (simp add: content_path_def completion_body_def js_get_def opt_index0_def opt_get_def
      ascii_def)

lemma sendMessageToAi_content:
  "sendMessageToAi (fetch_content v) q = Inr (if truthy v then v else JStr no_content_reply)"
  by (simp add: sendMessageToAi_def sendMessageToAi_try_def fetch_content_def
      content_path_completion [unfolded completion_body_def] js_or_def completion_body_def)

text \<open>
  Claim C8. When the handler is suspended in the call of the assistant, the thinking flag
  is set; when the handler resumes, with whatever result of the call and in whatever state,
  the flag is reset, also when the call is \<open>sendMessageToAi\<close> on any network; on an
  attached channel the assistant's message is then in the transcript and posted, and the
  flag is reset in that same state.
\<close>

theorem busy_flag_always_reset:
  assumes "handleSendMessage currentUser now_id now_ts st = (st1, AwaitingAi query)"
  shows "isAiThinking st1 = True \<and>
         (\<forall>result. isAiThinking (fst (ai_resume result t_id t_ts st2)) = False) \<and>
         isAiThinking (fst (ai_resume (sendMessageToAi fetch query) t_id t_ts st2)) = False \<and>
         (\<forall>posted. channelRef st2 = Attached posted \<longrightarrow>
            (\<exists>reply. sendMessageToAi fetch query = Inr reply \<and>
               ai_resume (sendMessageToAi fetch query) t_id t_ts st2 =
                 (st2\<lparr>messages := messages st2 @ [aiMessage reply t_id t_ts],
                      channelRef := Attached (posted @ [NEW_MESSAGE (aiMessage reply t_id t_ts)]),
                      isAiThinking := False\<rparr>, Returned)))"
proof -
  from assms have "snd (handleSendMessage currentUser now_id now_ts st) = AwaitingAi query"
    and st1: "st1 = fst (handleSendMessage currentUser now_id now_ts st)"
    by simp_all
  then have "isAiThinking st1 = True"
    by (simp add: handleSendMessage_flag)
  moreover have "\<exists>reply. sendMessageToAi fetch query = Inr reply \<and>
       ai_resume (sendMessageToAi fetch query) t_id t_ts st2 =
         (st2\<lparr>messages := messages st2 @ [aiMessage reply t_id t_ts],
              channelRef := Attached (posted @ [NEW_MESSAGE (aiMessage reply t_id t_ts)]),
              isAiThinking := False\<rparr>, Returned)"
    if "channelRef st2 = Attached posted" for posted
  proof -
    obtain reply where r: "sendMessageToAi fetch query = Inr reply"
      using sendMessageToAi_returns by blast
    with ai_resume_published [OF that, of reply t_id t_ts] show ?thesis
      by simp
  qed
  ultimately show ?thesis
    by (simp add: ai_resume_flag)
qed

theorem busy_flag_always_reset_witness:
  "handleSendMessage demo_self 1700000005000 1700000005001 demo_ask
     = (fst (handleSendMessage demo_self 1700000005000 1700000005001 demo_ask),
        AwaitingAi (ascii ''hello'')) \<and>
   isAiThinking (fst (handleSendMessage demo_self 1700000005000 1700000005001 demo_ask)) = True \<and>
   isAiThinking (fst (ai_resume (sendMessageToAi fetch_down (ascii ''hello''))
       1700000006000 1700000006001
       (fst (handleSendMessage demo_self 1700000005000 1700000005001 demo_ask)))) = False \<and>
   isAiThinking (fst (ai_resume (sendMessageToAi (fetch_content JNull) (ascii ''hello''))
       1700000006000 1700000006001
       (fst (handleSendMessage demo_self 1700000005000 1700000005001 demo_ask)))) = False \<and>
   isAiThinking (fst (ai_resume (sendMessageToAi (fetch_content (JStr (ascii ''hi''))) (ascii ''hello''))
       1700000006000 1700000006001
       (fst (handleSendMessage demo_self 1700000005000 1700000005001 demo_ask)))) = False"
  using busy_flag_always_reset [OF demo_ask_run, of 1700000006000 1700000006001
          "fst (handleSendMessage demo_self 1700000005000 1700000005001 demo_ask)" fetch_down]
        busy_flag_always_reset [OF demo_ask_run, of 1700000006000 1700000006001
          "fst (handleSendMessage demo_self 1700000005000 1700000005001 demo_ask)"
          "fetch_content JNull"]
        busy_flag_always_reset [OF demo_ask_run, of 1700000006000 1700000006001
          "fst (handleSendMessage demo_self 1700000005000 1700000005001 demo_ask)"
          "fetch_content (JStr (ascii ''hi''))"]
        demo_ask_run
  by simp

text \<open>
  Claim C7 as stated fails: a response with status 200 whose body has
  \<open>choices[0].message.content\<close> equal to the empty string has the path, and the call
  returns the "nothing to say" reply, not the content.
\<close>

theorem empty_content_gets_fallback:
  "fetch_content (JStr []) (ascii ''hello'')
     = FetchResolved \<lparr>ok = True, json_body = Some (completion_body (JStr []))\<rparr> \<and>
   content_path (completion_body (JStr [])) = Some (JStr []) \<and>
   sendMessageToAi (fetch_content (JStr [])) (ascii ''hello'') = Inr (JStr no_content_reply) \<and>
   sendMessageToAi (fetch_content (JStr [])) (ascii ''hello'') \<noteq> Inr (JStr [])"
  by (simp add: sendMessageToAi_content content_path_completion fetch_content_def
      no_content_reply_def)

text \<open>
  Claim C7, amended. \<open>sendMessageToAi\<close> always returns a value and never throws: the
  network-error reply when \<open>fetch\<close> rejects; the API-error or the network-error reply on
  a non-success status; the no-content or the network-error reply when a success response
  has no parsable body or its body lacks \<open>choices[0].message.content\<close>; and, when the path
  is there, the content if it is truthy and the no-content reply otherwise.
\<close>

theorem sendMessageToAi_never_throws:
  "(\<exists>reply. sendMessageToAi fetch userMessage = Inr reply) \<and>
   (fetch userMessage = FetchRejected \<longrightarrow>
      sendMessageToAi fetch userMessage = Inr (JStr network_error_reply)) \<and>
   (\<forall>r. fetch userMessage = FetchResolved r \<and> \<not> ok r \<longrightarrow>
      sendMessageToAi fetch userMessage
        \<in> {Inr (JStr api_error_reply), Inr (JStr network_error_reply)}) \<and>
   (\<forall>r. fetch userMessage = FetchResolved r \<and> ok r \<and>
        (json_body r = None \<or> (\<exists>data. json_body r = Some data \<and> content_path data = None)) \<longrightarrow>
      sendMessageToAi fetch userMessage
        \<in> {Inr (JStr no_content_reply), Inr (JStr network_error_reply)}) \<and>
   (\<forall>r data v. fetch userMessage = FetchResolved r \<and> ok r \<and> json_body r = Some data \<and>
        content_path data = Some v \<longrightarrow>
      sendMessageToAi fetch userMessage = Inr (if truthy v then v else JStr no_content_reply))"
proof -
  have rejected: "sendMessageToAi fetch userMessage = Inr (JStr network_error_reply)"
    if "fetch userMessage = FetchRejected"
    using that by (simp add: sendMessageToAi_def sendMessageToAi_try_def)
  have failed: "sendMessageToAi fetch userMessage
        \<in> {Inr (JStr api_error_reply), Inr (JStr network_error_reply)}"
    if "fetch userMessage = FetchResolved r \<and> \<not> ok r" for r
    using that
    by (simp add: sendMessageToAi_def sendMessageToAi_try_def split: option.splits)
  have missing: "sendMessageToAi fetch userMessage
        \<in> {Inr (JStr no_content_reply), Inr (JStr network_error_reply)}"
    if "fetch userMessage = FetchResolved r \<and> ok r \<and>
        (json_body r = None \<or> (\<exists>data. json_body r = Some data \<and> content_path data = None))"
    for r
    using that
    by (auto simp: sendMessageToAi_def sendMessageToAi_try_def js_or_def
        split: option.splits json.splits)
  have null_path: "content_path JNull = None"
    by (simp add: content_path_def js_get_def opt_index0_def opt_get_def)
  have present: "sendMessageToAi fetch userMessage
        = Inr (if truthy v then v else JStr no_content_reply)"
    if "fetch userMessage = FetchResolved r \<and> ok r \<and> json_body r = Some data \<and>
        content_path data = Some v" for r data v
  proof -
    from that null_path have "data \<noteq> JNull"
      by auto
    with that show ?thesis
      by (cases data)
         (simp_all add: sendMessageToAi_def sendMessageToAi_try_def js_or_def)
  qed
  from rejected failed missing present sendMessageToAi_returns [of fetch userMessage]
  show ?thesis by blast
qed

theorem sendMessageToAi_never_throws_witness:
  "fetch_down (ascii ''hello'') = FetchRejected \<and>
   sendMessageToAi fetch_down (ascii ''hello'') = Inr (JStr network_error_reply) \<and>
   fetch_content (JStr (ascii ''hi'')) (ascii ''hello'')
     = FetchResolved \<lparr>ok = True, json_body = Some (completion_body (JStr (ascii ''hi'')))\<rparr> \<and>
   content_path (completion_body (JStr (ascii ''hi''))) = Some (JStr (ascii ''hi'')) \<and>
   sendMessageToAi (fetch_content (JStr (ascii ''hi''))) (ascii ''hello'')
     = Inr (JStr (ascii ''hi''))"
proof -
  have d: "fetch_down (ascii ''hello'') = FetchRejected"
    by (simp add: fetch_down_def)
  have c: "fetch_content (JStr (ascii ''hi'')) (ascii ''hello'')
     = FetchResolved \<lparr>ok = True, json_body = Some (completion_body (JStr (ascii ''hi'')))\<rparr>"
    by (simp add: fetch_content_def)
  have t: "truthy (JStr (ascii ''hi''))"
    by (simp add: ascii_def)
  from sendMessageToAi_never_throws [of fetch_down "ascii ''hello''"]
       sendMessageToAi_never_throws [of "fetch_content (JStr (ascii ''hi''))" "ascii ''hello''"]
       d c t content_path_completion [of "JStr (ascii ''hi'')"]
  show ?thesis by simp
qed

end
